theory Spec2Isabelle
  imports Main
begin

section \<open>JavaScript values\<close>

text \<open>
  A JavaScript string is modelled as a \<^typ>\<open>string\<close>, one \<^typ>\<open>char\<close> per code unit, so
  \<open>length\<close> is the \<open>.length\<close> of the source. A property that may be absent, \<open>undefined\<close> or
  \<open>null\<close> is an \<open>option\<close>. In a condition, a missing value and the empty string are both
  falsy, every other string is truthy.
\<close>

definition truthy :: "string option \<Rightarrow> bool" where
  "truthy v = (case v of None \<Rightarrow> False | Some s \<Rightarrow> s \<noteq> [])"

definition inRange :: "char \<Rightarrow> char \<Rightarrow> char \<Rightarrow> bool" where
  "inRange lo hi c = ((of_char lo :: nat) \<le> of_char c \<and> (of_char c :: nat) \<le> of_char hi)"

text \<open>\<open>String.prototype.toLowerCase\<close> on code units below 256: the letters A to Z and the
  accented capitals of Latin-1 (all of 0xC0 to 0xDE but the multiplication sign 0xD7) move up
  by 32.\<close>

definition toLowerCaseChar :: "char \<Rightarrow> char" where
  "toLowerCaseChar c =
     (let n = (of_char c :: nat)
      in if (65 \<le> n \<and> n \<le> 90) \<or> (192 \<le> n \<and> n \<le> 222 \<and> n \<noteq> 215)
         then char_of (n + 32) else c)"

definition toLowerCase :: "string \<Rightarrow> string" where
  "toLowerCase s = map toLowerCaseChar s"

text \<open>\<open>s.startsWith(p)\<close>.\<close>

definition startsWith :: "string \<Rightarrow> string \<Rightarrow> bool" where
  "startsWith s p = (take (length p) s = p)"

text \<open>\<open>s.includes(n)\<close>: the needle \<open>n\<close> occurs in \<open>s\<close> at some offset.\<close>

fun isPrefix :: "string \<Rightarrow> string \<Rightarrow> bool" where
  "isPrefix [] s = True"
| "isPrefix (x # xs) [] = False"
| "isPrefix (x # xs) (y # ys) = (x = y \<and> isPrefix xs ys)"

fun includesStr :: "string \<Rightarrow> string \<Rightarrow> bool" where
  "includesStr [] n = (n = [])"
| "includesStr (c # cs) n = (isPrefix n (c # cs) \<or> includesStr cs n)"

text \<open>\<open>s.replace(p, r)\<close> with a one-character string pattern: only the first occurrence of
  the pattern is replaced, wherever it stands.\<close>

fun replaceFirst :: "char \<Rightarrow> string \<Rightarrow> string \<Rightarrow> string" where
  "replaceFirst p r [] = []"
| "replaceFirst p r (c # cs) = (if c = p then r @ cs else c # replaceFirst p r cs)"

text \<open>The decimal rendering of a non-negative integer inside a template literal.\<close>

definition digit_char :: "nat \<Rightarrow> char" where
  "digit_char d = ''0123456789'' ! d"

fun string_of_nat :: "nat \<Rightarrow> string" where
  "string_of_nat n =
     (if n < 10 then [digit_char n] else string_of_nat (n div 10) @ [digit_char (n mod 10)])"

declare string_of_nat.simps [simp del]


section \<open>Validation helpers\<close>

text \<open>
  \<^verbatim>\<open>/^[a-zA-Z0-9\-_#]+$/\<close>: the character class, and the anchored match of one or more
  characters of a class (without the \<open>m\<close> flag, \<open>$\<close> matches at the very end only).
\<close>

definition orderChar :: "char \<Rightarrow> bool" where
  "orderChar c =
     (inRange CHR ''a'' CHR ''z'' c \<or> inRange CHR ''A'' CHR ''Z'' c \<or> inRange CHR ''0'' CHR ''9'' c
      \<or> c = CHR ''-'' \<or> c = CHR ''_'' \<or> c = CHR ''#'')"

fun matchPlus :: "(char \<Rightarrow> bool) \<Rightarrow> string \<Rightarrow> bool" where
  "matchPlus p [] = False"
| "matchPlus p [c] = p c"
| "matchPlus p (c # d # cs) = (p c \<and> matchPlus p (d # cs))"

definition validateOrderNumber :: "string \<Rightarrow> bool" where
  "validateOrderNumber orderNumber =
     (matchPlus orderChar orderNumber \<and> length orderNumber \<ge> 1 \<and> length orderNumber \<le> 50)"

text \<open>
  \<^verbatim>\<open>/^[^\s@]+@[^\s@]+\.[^\s@]+$/\<close>. No part may hold an \<open>@\<close>, so the string splits at its
  first \<open>@\<close>; the part after it must hold a dot that is neither its first nor its last
  character. \<open>\s\<close> on code units below 256 is tab to carriage return, space and the
  no-break space.
\<close>

definition whiteSpace :: "char \<Rightarrow> bool" where
  "whiteSpace c = (let n = (of_char c :: nat) in (9 \<le> n \<and> n \<le> 13) \<or> n = 32 \<or> n = 160)"

definition emailChar :: "char \<Rightarrow> bool" where
  "emailChar c = (\<not> whiteSpace c \<and> c \<noteq> CHR ''@'')"

definition validateEmail :: "string \<Rightarrow> bool" where
  "validateEmail emailArg =
     (let localPart = takeWhile (\<lambda>c. c \<noteq> CHR ''@'') emailArg;
          rest = dropWhile (\<lambda>c. c \<noteq> CHR ''@'') emailArg
      in case rest of
           [] \<Rightarrow> False
         | atSign # domainPart \<Rightarrow>
             localPart \<noteq> [] \<and> list_all emailChar localPart \<and> list_all emailChar domainPart
             \<and> CHR ''.'' \<in> set (butlast (tl domainPart)))"


section \<open>Rate limiting\<close>

text \<open>
  \<open>RateLimiter.requests\<close> is a \<open>Map\<close> from client address to an array of timestamps. The
  method reads the clock once (\<open>Date.now()\<close>, here the argument \<open>now\<close>, in milliseconds),
  and returns its verdict; the model returns the updated map with it. \<open>push\<close> appends to the
  very array that was stored in the map, so an admitted call stores the filtered array
  extended by \<open>now\<close>.
\<close>

type_synonym requests = "string \<rightharpoonup> int list"

definition isAllowed :: "requests \<Rightarrow> string \<Rightarrow> nat \<Rightarrow> int \<Rightarrow> int \<Rightarrow> bool \<times> requests" where
  "isAllowed reqs ip maxRequests windowMs now =
     (let windowStart = now - windowMs;
          reqs1 = (if reqs ip = None then reqs(ip \<mapsto> []) else reqs);
          userRequests = (case reqs1 ip of None \<Rightarrow> [] | Some ts \<Rightarrow> ts);
          validRequests = filter (\<lambda>time. time > windowStart) userRequests;
          reqs2 = reqs1(ip \<mapsto> validRequests)
      in if length validRequests \<ge> maxRequests then (False, reqs2)
         else (True, reqs2(ip \<mapsto> validRequests @ [now])))"

text \<open>A sequence of calls \<open>(ip, now)\<close> on one limiter with one configuration: the verdicts in
  order, and the map after the last call.\<close>

fun callSequence :: "nat \<Rightarrow> int \<Rightarrow> requests \<Rightarrow> (string \<times> int) list \<Rightarrow> bool list \<times> requests" where
  "callSequence maxRequests windowMs reqs [] = ([], reqs)"
| "callSequence maxRequests windowMs reqs ((ip, now) # calls) =
     (let (verdict, reqs') = isAllowed reqs ip maxRequests windowMs now;
          (verdicts, reqs'') = callSequence maxRequests windowMs reqs' calls
      in (verdict # verdicts, reqs''))"

text \<open>The clock value of the last call of a sequence that named the client \<open>c\<close>.\<close>

definition lastCall :: "string \<Rightarrow> (string \<times> int) list \<Rightarrow> int option" where
  "lastCall c calls =
     (let touching = filter (\<lambda>call. fst call = c) calls
      in if touching = [] then None else Some (snd (last touching)))"

text \<open>
  The admission rule in the words of the specification, for comparison with \<^const>\<open>isAllowed\<close>:
  drop all recorded timestamps older than \<open>now - windowDuration\<close>; if the remaining count is
  at least \<open>maxRequests\<close>, reject without recording; otherwise append \<open>now\<close> and admit.
\<close>

definition admit_spec :: "requests \<Rightarrow> string \<Rightarrow> nat \<Rightarrow> int \<Rightarrow> int \<Rightarrow> bool \<times> requests" where
  "admit_spec reqs clientId maxRequests windowDuration now =
     (let recorded = (case reqs clientId of None \<Rightarrow> [] | Some ts \<Rightarrow> ts);
          remaining = filter (\<lambda>t. \<not> t < now - windowDuration) recorded
      in if length remaining \<ge> maxRequests then (False, reqs(clientId \<mapsto> remaining))
         else (True, reqs(clientId \<mapsto> remaining @ [now])))"


section \<open>Orders as the upstream store returns them\<close>

text \<open>
  The fields the worker reads. \<open>created_at\<close> is the creation instant in milliseconds since
  the epoch (what \<open>new Date(created_at)\<close> and \<open>dayjs(created_at)\<close> parse the field to);
  \<open>closed_at\<close> is only tested and handed on, so it stays a string. Every tracking
  property of a fulfillment may be missing.
\<close>

record line_item =
  item_tracking_number :: "string option"

record fulfillment =
  tracking_numbers :: "string list option"
  tracking_number :: "string option"
  trackingNumber :: "string option"
  line_items :: "line_item list option"

record order =
  name :: string
  email :: "string option"
  created_at :: int
  closed_at :: "string option"
  fulfillments :: "fulfillment list option"


section \<open>Tracking extraction\<close>

text \<open>
  The first part of \<open>determineOrderStatus\<close>: \<open>fulfillment\<close> is \<open>order.fulfillments[0]\<close>
  when the array is there and not empty, else \<open>null\<close>.
\<close>

definition firstFulfillment :: "order \<Rightarrow> fulfillment option" where
  "firstFulfillment ord =
     (case fulfillments ord of None \<Rightarrow> None | Some [] \<Rightarrow> None | Some (f # fs) \<Rightarrow> Some f)"

text \<open>The \<open>for ... of\<close> loop over the line items: the first truthy \<open>item.tracking_number\<close>
  replaces the current value and ends the loop.\<close>

fun scanLineItems :: "line_item list \<Rightarrow> string option \<Rightarrow> string option" where
  "scanLineItems [] current = current"
| "scanLineItems (item # items) current =
     (if truthy (item_tracking_number item) then item_tracking_number item
      else scanLineItems items current)"

text \<open>
  The \<open>if / else if / else if\<close> chain on the three fulfillment properties, then the separate
  \<open>if (!trackingNumber && fulfillment.line_items)\<close>. The first branch tests the length of the
  array only, not the element it takes.
\<close>

definition fulfillmentTracking :: "fulfillment \<Rightarrow> string option" where
  "fulfillmentTracking f =
     (let fromFields =
            (case tracking_numbers f of
               Some (t # ts) \<Rightarrow> Some t
             | _ \<Rightarrow> if truthy (tracking_number f) then tracking_number f
                    else if truthy (trackingNumber f) then trackingNumber f
                    else None)
      in if \<not> truthy fromFields
         then (case line_items f of None \<Rightarrow> fromFields | Some items \<Rightarrow> scanLineItems items fromFields)
         else fromFields)"

definition extractTracking :: "order \<Rightarrow> string option" where
  "extractTracking ord =
     (case firstFulfillment ord of None \<Rightarrow> None | Some f \<Rightarrow> fulfillmentTracking f)"


section \<open>Status classification\<close>

text \<open>
  \<open>dayjs().diff(dayjs(order.created_at), 'hour')\<close>: the difference of the two instants in
  milliseconds, divided by the milliseconds of an hour and truncated towards zero.
\<close>

definition hoursSince :: "int \<Rightarrow> int \<Rightarrow> int" where
  "hoursSince createdAt now =
     (let diff = now - createdAt
      in if diff < 0 then - ((- diff) div 3600000) else diff div 3600000)"

record status_info =
  status :: string
  info_trackingNumber :: "string option"
  deliveredAt :: "string option"
  buttonsDisabled :: bool
  disabledReason :: "string option"

text \<open>\<open>determineOrderStatus\<close> of the worker with button control; \<open>now\<close> is the clock that
  \<open>dayjs()\<close> reads.\<close>

definition determineOrderStatus :: "int \<Rightarrow> order \<Rightarrow> status_info" where
  "determineOrderStatus now ord =
     (let trackingNo = extractTracking ord
      in if truthy (closed_at ord)
         then \<lparr>status = ''Order Delivered'', info_trackingNumber = trackingNo,
               deliveredAt = closed_at ord, buttonsDisabled = True,
               disabledReason = Some ''Order has been delivered''\<rparr>
         else if truthy trackingNo
         then \<lparr>status = ''In Transit'', info_trackingNumber = trackingNo,
               deliveredAt = None, buttonsDisabled = True,
               disabledReason = Some ''Order is in transit''\<rparr>
         else let hours = hoursSince (created_at ord) now
              in if hours < 48
                 then \<lparr>status = ''Order Processing'', info_trackingNumber = None,
                       deliveredAt = None, buttonsDisabled = False, disabledReason = None\<rparr>
                 else \<lparr>status = ''In Transit'', info_trackingNumber = None,
                       deliveredAt = None, buttonsDisabled = True,
                       disabledReason = Some ''Order is in transit (48+ hours)''\<rparr>)"

text \<open>
  The two other copies of \<open>determineOrderStatus\<close> return \<open>status\<close>, \<open>trackingNumber\<close> and
  \<open>deliveredAt\<close> only. The one of \<open>src/index.js\<close> has the order of tests of the worker above.
  The one of the Express server tests \<open>closed_at\<close> before it looks at the fulfillments and
  returns \<open>trackingNumber: null\<close> there.
\<close>

record basic_status_info =
  basic_status :: string
  basic_trackingNumber :: "string option"
  basic_deliveredAt :: "string option"

definition determineOrderStatus_index :: "int \<Rightarrow> order \<Rightarrow> basic_status_info" where
  "determineOrderStatus_index now ord =
     (let trackingNo = extractTracking ord
      in if truthy (closed_at ord)
         then \<lparr>basic_status = ''Order Delivered'', basic_trackingNumber = trackingNo,
               basic_deliveredAt = closed_at ord\<rparr>
         else if truthy trackingNo
         then \<lparr>basic_status = ''In Transit'', basic_trackingNumber = trackingNo,
               basic_deliveredAt = None\<rparr>
         else let hours = hoursSince (created_at ord) now
              in if hours < 48
                 then \<lparr>basic_status = ''Order Processing'', basic_trackingNumber = None,
                       basic_deliveredAt = None\<rparr>
                 else \<lparr>basic_status = ''In Transit'', basic_trackingNumber = None,
                       basic_deliveredAt = None\<rparr>)"

definition determineOrderStatus_server :: "int \<Rightarrow> order \<Rightarrow> basic_status_info" where
  "determineOrderStatus_server now ord =
     (if truthy (closed_at ord)
      then \<lparr>basic_status = ''Order Delivered'', basic_trackingNumber = None,
            basic_deliveredAt = closed_at ord\<rparr>
      else let trackingNo = extractTracking ord
           in if truthy trackingNo
              then \<lparr>basic_status = ''In Transit'', basic_trackingNumber = trackingNo,
                    basic_deliveredAt = None\<rparr>
              else let hours = hoursSince (created_at ord) now
                   in if hours < 48
                      then \<lparr>basic_status = ''Order Processing'', basic_trackingNumber = None,
                            basic_deliveredAt = None\<rparr>
                      else \<lparr>basic_status = ''In Transit'', basic_trackingNumber = None,
                            basic_deliveredAt = None\<rparr>)"


section \<open>Locating the order\<close>

text \<open>
  \<open>Array.prototype.sort\<close> with a comparator is a stable sort: \<open>a\<close> ends before \<open>b\<close> when
  \<open>cmp(a, b) < 0\<close>, and elements that compare equal keep their order. For a consistent
  comparator there is one such arrangement; it is computed here by insertion from the right.
\<close>

fun insertBy :: "('a \<Rightarrow> 'a \<Rightarrow> int) \<Rightarrow> 'a \<Rightarrow> 'a list \<Rightarrow> 'a list" where
  "insertBy cmp x [] = [x]"
| "insertBy cmp x (y # ys) = (if cmp x y \<le> 0 then x # y # ys else y # insertBy cmp x ys)"

definition sortBy :: "('a \<Rightarrow> 'a \<Rightarrow> int) \<Rightarrow> 'a list \<Rightarrow> 'a list" where
  "sortBy cmp xs = foldr (insertBy cmp) xs []"

text \<open>The comparator \<open>(a, b) => new Date(b.created_at) - new Date(a.created_at)\<close>.\<close>

definition byCreatedDesc :: "order \<Rightarrow> order \<Rightarrow> int" where
  "byCreatedDesc a b = created_at b - created_at a"

text \<open>
  The upstream store is a function from the query that the URL carries (\<open>name=\<close> or
  \<open>email=\<close>) to what \<open>fetch\<close> does: it rejects with an error message, or it resolves to a
  response with a status code whose \<open>json()\<close> either rejects or yields the \<open>orders\<close> property
  (which may be missing).
\<close>

datatype query = ByName string | ByEmail string

datatype fetch_result =
    FetchRejected string
  | FetchResponse nat "string + order list option"

type_synonym upstream = "query \<Rightarrow> fetch_result"

text \<open>\<open>response.ok\<close>.\<close>

definition ok :: "nat \<Rightarrow> bool" where
  "ok st = (200 \<le> st \<and> st \<le> 299)"

text \<open>\<open>orderNumber.startsWith('#') ? orderNumber : `#${orderNumber}`\<close>.\<close>

definition displayName :: "string \<Rightarrow> string" where
  "displayName orderNo = (if startsWith orderNo ''#'' then orderNo else ''#'' @ orderNo)"

text \<open>The predicate handed to \<open>orders.find\<close>.\<close>

definition emailMatches :: "string \<Rightarrow> order \<Rightarrow> bool" where
  "emailMatches emailArg ord =
     (case email ord of
        None \<Rightarrow> False
      | Some e \<Rightarrow> e \<noteq> [] \<and> toLowerCase e = toLowerCase emailArg)"

text \<open>The query of the URL that \<open>getOrder\<close> builds once one of its two arguments is
  truthy: by display name whenever an order number is given, else by email.\<close>

definition orderQuery :: "string option \<Rightarrow> string option \<Rightarrow> query" where
  "orderQuery orderNo emailArg =
     (if truthy orderNo
      then ByName (displayName (case orderNo of Some n \<Rightarrow> n | None \<Rightarrow> []))
      else ByEmail (case emailArg of Some e \<Rightarrow> e | None \<Rightarrow> []))"

text \<open>
  \<open>getOrder\<close>: \<open>Inl\<close> carries the message of the error it throws (its \<open>catch\<close> logs and
  rethrows), \<open>Inr None\<close> is \<open>null\<close>. The second component counts the calls of \<open>fetch\<close>.
\<close>

definition getOrder :: "upstream \<Rightarrow> string option \<Rightarrow> string option \<Rightarrow> (string + order option) \<times> nat" where
  "getOrder fetch orderNo emailArg =
     (if \<not> truthy orderNo \<and> \<not> truthy emailArg
      then (Inl ''Either orderNumber or email must be provided'', 0)
      else
        let url = orderQuery orderNo emailArg
        in case fetch url of
             FetchRejected msg \<Rightarrow> (Inl msg, 1)
           | FetchResponse st json \<Rightarrow>
               if \<not> ok st then (Inl (''Shopify API error: '' @ string_of_nat st), 1)
               else (case json of
                       Inl msg \<Rightarrow> (Inl msg, 1)
                     | Inr data \<Rightarrow>
                         (case (case data of None \<Rightarrow> [] | Some os \<Rightarrow> os) of
                            [] \<Rightarrow> (Inr None, 1)
                          | first # others \<Rightarrow>
                              if truthy orderNo \<and> truthy emailArg
                              then (case find (emailMatches (case emailArg of Some e \<Rightarrow> e | None \<Rightarrow> []))
                                           (first # others) of
                                      Some found \<Rightarrow> (Inr (Some found), 1)
                                    | None \<Rightarrow> (Inr (Some first), 1))
                              else (case sortBy byCreatedDesc (first # others) of
                                      newest # rest \<Rightarrow> (Inr (Some newest), 1)
                                    | [] \<Rightarrow> (Inr None, 1)))))"


section \<open>The tracking endpoint\<close>

record track_data =
  orderNumber :: string
  data_status :: string
  data_trackingNumber :: "string option"
  orderDate :: int
  lastUpdated :: string
  data_deliveredAt :: "string option"

text \<open>\<open>createResponse({success: true, data})\<close> and
  \<open>createErrorResponse(error, message, code, status)\<close>, whose status defaults to 400.\<close>

datatype response =
    SuccessResponse track_data
  | ErrorResponse string string string nat

fun responseCode :: "response \<Rightarrow> string option" where
  "responseCode (SuccessResponse d) = None"
| "responseCode (ErrorResponse err msg code st) = Some code"

text \<open>
  What \<open>handleTrack\<close> reads of the request: the two address headers, and the parsed body
  (\<open>Inl\<close> when \<open>request.json()\<close> rejects, with the message of its error; else the
  \<open>orderNumber\<close> and \<open>email\<close> properties).
\<close>

record track_request =
  cf_connecting_ip :: "string option"
  x_forwarded_for :: "string option"
  body :: "string + (string option \<times> string option)"

text \<open>\<open>get('CF-Connecting-IP') || get('X-Forwarded-For') || 'unknown'\<close>.\<close>

definition clientIP :: "track_request \<Rightarrow> string" where
  "clientIP request =
     (case cf_connecting_ip request of
        Some (c # cs) \<Rightarrow> c # cs
      | _ \<Rightarrow> (case x_forwarded_for request of Some (c # cs) \<Rightarrow> c # cs | _ \<Rightarrow> ''unknown''))"

text \<open>The \<open>catch\<close> block of \<open>handleTrack\<close>, on the message of the error caught.\<close>

definition trackError :: "string \<Rightarrow> response" where
  "trackError msg =
     (if includesStr msg ''Shopify API error: 401''
      then ErrorResponse ''Authentication failed'' ''Shopify API authentication error''
             ''SHOPIFY_AUTH_ERROR'' 500
      else if includesStr msg ''Shopify API error: 403''
      then ErrorResponse ''Access denied'' ''Shopify API access denied''
             ''SHOPIFY_ACCESS_DENIED'' 500
      else if includesStr msg ''Shopify API error: 5''
      then ErrorResponse ''Service unavailable'' ''Shopify API is currently unavailable''
             ''SHOPIFY_SERVICE_UNAVAILABLE'' 503
      else ErrorResponse ''Internal server error''
             ''An unexpected error occurred while processing your request''
             ''INTERNAL_ERROR'' 500)"

text \<open>\<open>searchCriteria.join(' and ')\<close>.\<close>

definition searchCriteria :: "string option \<Rightarrow> string option \<Rightarrow> string" where
  "searchCriteria orderNo emailArg =
     (if truthy orderNo \<and> truthy emailArg then ''order number and email''
      else if truthy orderNo then ''order number''
      else if truthy emailArg then ''email'' else [])"

text \<open>
  \<open>handleTrack\<close> of \<open>src/index.js\<close>, on the state of the global rate limiter. It returns the
  response, the limiter afterwards and the number of upstream calls made. \<open>now\<close> is the
  clock in milliseconds, \<open>nowIso\<close> what \<open>new Date().toISOString()\<close> gives.
\<close>

definition handleTrack ::
    "requests \<Rightarrow> upstream \<Rightarrow> int \<Rightarrow> string \<Rightarrow> track_request \<Rightarrow> response \<times> requests \<times> nat" where
  "handleTrack limiter fetch now nowIso request =
     (let (allowed, limiter') = isAllowed limiter (clientIP request) 100 (15 * 60 * 1000) now
      in if \<not> allowed
         then (ErrorResponse ''Too many requests from this IP, please try again later.''
                 ''Rate limit exceeded'' ''RATE_LIMIT_EXCEEDED'' 429, limiter', 0)
         else
           (case body request of
              Inl msg \<Rightarrow> (trackError msg, limiter', 0)
            | Inr (orderNo, emailArg) \<Rightarrow>
                if \<not> truthy orderNo \<and> \<not> truthy emailArg
                then (ErrorResponse ''Missing required fields''
                        ''Please provide either order number or email address''
                        ''MISSING_FIELDS'' 400, limiter', 0)
                else if truthy orderNo
                        \<and> \<not> validateOrderNumber (case orderNo of Some n \<Rightarrow> n | None \<Rightarrow> [])
                then (ErrorResponse ''Invalid order number''
                        ''Order number must be 1-50 characters and contain only letters, numbers, hyphens, underscores, and #''
                        ''INVALID_ORDER_NUMBER'' 400, limiter', 0)
                else if truthy emailArg
                        \<and> \<not> validateEmail (case emailArg of Some e \<Rightarrow> e | None \<Rightarrow> [])
                then (ErrorResponse ''Invalid email address''
                        ''Please provide a valid email address''
                        ''INVALID_EMAIL'' 400, limiter', 0)
                else
                  (case getOrder fetch orderNo emailArg of
                     (Inl msg, calls) \<Rightarrow> (trackError msg, limiter', calls)
                   | (Inr None, calls) \<Rightarrow>
                       (ErrorResponse ''Order not found''
                          (''No order found with the provided '' @ searchCriteria orderNo emailArg)
                          ''ORDER_NOT_FOUND'' 404, limiter', calls)
                   | (Inr (Some ord), calls) \<Rightarrow>
                       (let statusInfo = determineOrderStatus_index now ord
                        in (SuccessResponse
                              \<lparr>orderNumber = replaceFirst CHR ''#'' [] (name ord),
                               data_status = basic_status statusInfo,
                               data_trackingNumber = basic_trackingNumber statusInfo,
                               orderDate = created_at ord,
                               lastUpdated = nowIso,
                               data_deliveredAt = basic_deliveredAt statusInfo\<rparr>,
                            limiter', calls)))))"


section \<open>The specification's wording of three rules\<close>

text \<open>
  The fallback order of the tracking extraction as the specification states it: the first
  element of the tracking list if the list is non-empty, else the singular field, else the
  alternately-cased singular field, else the first line item carrying a tracking number,
  else none. For comparison with \<^const>\<open>extractTracking\<close>.
\<close>

definition extractTracking_spec :: "order \<Rightarrow> string option" where
  "extractTracking_spec candidate =
     (case fulfillments candidate of
        None \<Rightarrow> None
      | Some [] \<Rightarrow> None
      | Some (f # fs) \<Rightarrow>
          (case tracking_numbers f of
             Some (t # ts) \<Rightarrow> Some t
           | _ \<Rightarrow>
               if truthy (tracking_number f) then tracking_number f
               else if truthy (trackingNumber f) then trackingNumber f
               else (case find (\<lambda>item. truthy (item_tracking_number item))
                            (case line_items f of None \<Rightarrow> [] | Some items \<Rightarrow> items) of
                       Some item \<Rightarrow> item_tracking_number item
                     | None \<Rightarrow> None)))"

text \<open>The display name with its leading marker character stripped, and nothing else
  removed. For comparison with the \<open>orderNumber\<close> that \<^const>\<open>handleTrack\<close> returns.\<close>

definition stripMarker_spec :: "string \<Rightarrow> string" where
  "stripMarker_spec displayed =
     (case displayed of [] \<Rightarrow> [] | c # cs \<Rightarrow> if c = CHR ''#'' then cs else c # cs)"

text \<open>The error codes that name a failure of the upstream store.\<close>

definition upstreamFailureCodes :: "string list" where
  "upstreamFailureCodes =
     [''SHOPIFY_AUTH_ERROR'', ''SHOPIFY_ACCESS_DENIED'', ''SHOPIFY_SERVICE_UNAVAILABLE'']"


section \<open>Properties of the validator\<close>

lemma orderChar_set:
  "orderChar c \<longleftrightarrow> c \<in> set ''abcdefghijklmnopqrstuvwxyzABCDEFGHIJKLMNOPQRSTUVWXYZ0123456789_#-''"
proof (cases c)
  case (Char b0 b1 b2 b3 b4 b5 b6 b7)
  show ?thesis unfolding Char orderChar_def inRange_def
    by (cases b0; cases b1; cases b2; cases b3; cases b4; cases b5; cases b6; cases b7; simp)
qed

lemma matchPlus_iff: "matchPlus p s \<longleftrightarrow> s \<noteq> [] \<and> (\<forall>c\<in>set s. p c)"
  by (induction p s rule: matchPlus.induct) auto

text \<open>
  C7. \<open>validateOrderNumber\<close> accepts a string if and only if its length is between 1 and 50
  inclusive and every character is a letter A-Z or a-z, a digit, an underscore, a hash or a
  hyphen; the empty string, a string longer than 50 and a string with any other character
  are rejected.
\<close>

theorem validateOrderNumber_iff:
  "validateOrderNumber s \<longleftrightarrow>
     1 \<le> length s \<and> length s \<le> 50 \<and>
     (\<forall>c\<in>set s. c \<in> set ''abcdefghijklmnopqrstuvwxyzABCDEFGHIJKLMNOPQRSTUVWXYZ0123456789_#-'')"
proof -
  have "s \<noteq> [] \<longleftrightarrow> 1 \<le> length s"
    by (cases s) simp_all
  then show ?thesis
    unfolding validateOrderNumber_def matchPlus_iff orderChar_set by blast
qed

theorem validateOrderNumber_iff_witness:
  "1 \<le> length ''#ZV-10_01'' \<and> length ''#ZV-10_01'' \<le> 50
   \<and> set ''#ZV-10_01'' \<subseteq> set ''abcdefghijklmnopqrstuvwxyzABCDEFGHIJKLMNOPQRSTUVWXYZ0123456789_#-''
   \<and> validateOrderNumber ''#ZV-10_01''
   \<and> \<not> validateOrderNumber ''#10 01''"
  using validateOrderNumber_iff [of "''#ZV-10_01''"] validateOrderNumber_iff [of "''#10 01''"]
  by simp


section \<open>Properties of the status classification\<close>

text \<open>The copy of \<open>src/index.js\<close> returns the first three fields of what the worker with
  button control returns, on every order.\<close>

lemma determineOrderStatus_index_projection:
  "determineOrderStatus_index now ord =
     \<lparr>basic_status = status (determineOrderStatus now ord),
      basic_trackingNumber = info_trackingNumber (determineOrderStatus now ord),
      basic_deliveredAt = deliveredAt (determineOrderStatus now ord)\<rparr>"
  by (simp add: determineOrderStatus_index_def determineOrderStatus_def Let_def)

text \<open>In the worker with button control, a closed order is delivered, with the extracted
  tracking number handed on, whatever the fulfillments and the age of the order are.\<close>

lemma determineOrderStatus_delivered:
  assumes "closed_at ord = Some ts" and "ts \<noteq> []"
  shows "determineOrderStatus now ord =
           \<lparr>status = ''Order Delivered'', info_trackingNumber = extractTracking ord,
            deliveredAt = Some ts, buttonsDisabled = True,
            disabledReason = Some ''Order has been delivered''\<rparr>"
  using assms by (simp add: determineOrderStatus_def truthy_def)

text \<open>
  C1. A closed order is reported as delivered with the tracking number that the extraction
  found. The Express server's copy of \<open>determineOrderStatus\<close> does not do so: for a closed
  order whose first fulfillment lists the tracking number 1Z999AA1234567890, the extraction
  finds that number and the worker returns it, but the server returns no tracking number.
\<close>

theorem determineOrderStatus_server_delivered_tracking:
  "extractTracking
     \<lparr>name = ''#1001'', email = Some ''sam@example.com'', created_at = 0,
      closed_at = Some ''2024-01-14T16:45:00Z'',
      fulfillments = Some [\<lparr>tracking_numbers = Some [''1Z999AA1234567890''],
                             tracking_number = None, trackingNumber = None, line_items = None\<rparr>]\<rparr>
     = Some ''1Z999AA1234567890''
   \<and> basic_trackingNumber (determineOrderStatus_server 0
     \<lparr>name = ''#1001'', email = Some ''sam@example.com'', created_at = 0,
      closed_at = Some ''2024-01-14T16:45:00Z'',
      fulfillments = Some [\<lparr>tracking_numbers = Some [''1Z999AA1234567890''],
                             tracking_number = None, trackingNumber = None, line_items = None\<rparr>]\<rparr>)
     = None
   \<and> info_trackingNumber (determineOrderStatus 0
     \<lparr>name = ''#1001'', email = Some ''sam@example.com'', created_at = 0,
      closed_at = Some ''2024-01-14T16:45:00Z'',
      fulfillments = Some [\<lparr>tracking_numbers = Some [''1Z999AA1234567890''],
                             tracking_number = None, trackingNumber = None, line_items = None\<rparr>]\<rparr>)
     = Some ''1Z999AA1234567890''"
  by (simp add: determineOrderStatus_server_def determineOrderStatus_def extractTracking_def
      firstFulfillment_def fulfillmentTracking_def truthy_def)

text \<open>The whole hours are below 48 exactly when fewer than 48 times 3600000 milliseconds
  have passed.\<close>

lemma hoursSince_less_48: "hoursSince createdAt now < 48 \<longleftrightarrow> now - createdAt < 48 * 3600000"
  by (auto simp add: hoursSince_def Let_def)

text \<open>
  C6. An order that is not closed and for which no tracking number was extracted is
  processing (buttons enabled, no reason) while the truncated whole hours since its creation
  are below 48, and in transit with the reason "Order is in transit (48+ hours)" and the
  buttons disabled from 48 hours on. The copy of \<open>src/index.js\<close>, which has no button
  fields, gives the same two statuses.
\<close>

theorem determineOrderStatus_no_tracking:
  assumes "\<not> truthy (closed_at ord)" and "\<not> truthy (extractTracking ord)"
  shows "(hoursSince (created_at ord) now < 48 \<longrightarrow>
            determineOrderStatus now ord =
              \<lparr>status = ''Order Processing'', info_trackingNumber = None, deliveredAt = None,
               buttonsDisabled = False, disabledReason = None\<rparr>
            \<and> determineOrderStatus_index now ord =
              \<lparr>basic_status = ''Order Processing'', basic_trackingNumber = None,
               basic_deliveredAt = None\<rparr>)
       \<and> (48 \<le> hoursSince (created_at ord) now \<longrightarrow>
            determineOrderStatus now ord =
              \<lparr>status = ''In Transit'', info_trackingNumber = None, deliveredAt = None,
               buttonsDisabled = True, disabledReason = Some ''Order is in transit (48+ hours)''\<rparr>
            \<and> determineOrderStatus_index now ord =
              \<lparr>basic_status = ''In Transit'', basic_trackingNumber = None,
               basic_deliveredAt = None\<rparr>)"
  using assms by (simp add: determineOrderStatus_def determineOrderStatus_index_def Let_def)

theorem determineOrderStatus_no_tracking_witness:
  "\<not> truthy (closed_at \<lparr>name = ''#1002'', email = None, created_at = 1000, closed_at = None,
                        fulfillments = Some []\<rparr>)
   \<and> \<not> truthy (extractTracking \<lparr>name = ''#1002'', email = None, created_at = 1000,
                        closed_at = None, fulfillments = Some []\<rparr>)
   \<and> hoursSince 1000 172800999 < 48
   \<and> 48 \<le> hoursSince 1000 172801000
   \<and> determineOrderStatus 172800999
        \<lparr>name = ''#1002'', email = None, created_at = 1000, closed_at = None,
         fulfillments = Some []\<rparr>
       = \<lparr>status = ''Order Processing'', info_trackingNumber = None, deliveredAt = None,
          buttonsDisabled = False, disabledReason = None\<rparr>
   \<and> determineOrderStatus 172801000
        \<lparr>name = ''#1002'', email = None, created_at = 1000, closed_at = None,
         fulfillments = Some []\<rparr>
       = \<lparr>status = ''In Transit'', info_trackingNumber = None, deliveredAt = None,
          buttonsDisabled = True, disabledReason = Some ''Order is in transit (48+ hours)''\<rparr>"
  using determineOrderStatus_no_tracking
          [of "\<lparr>name = ''#1002'', email = None, created_at = 1000, closed_at = None,
                fulfillments = Some []\<rparr>" 172800999]
        determineOrderStatus_no_tracking
          [of "\<lparr>name = ''#1002'', email = None, created_at = 1000, closed_at = None,
                fulfillments = Some []\<rparr>" 172801000]
  by (simp add: truthy_def extractTracking_def firstFulfillment_def hoursSince_def)


section \<open>Properties of the tracking extraction\<close>

lemma scanLineItems_find:
  "scanLineItems items current =
     (case find (\<lambda>item. truthy (item_tracking_number item)) items of
        Some item \<Rightarrow> item_tracking_number item
      | None \<Rightarrow> current)"
  by (induction items) simp_all

text \<open>
  C5 as stated fails: when the tracking list is not empty but its first element is the empty
  string, the singular fields are skipped, the line items are searched all the same, and
  the tracking number of a line item is returned, where the stated fallback order gives the
  first element of the list.
\<close>

theorem extractTracking_list_first_counterexample:
  "extractTracking
     \<lparr>name = ''#1003'', email = None, created_at = 0, closed_at = None,
      fulfillments = Some [\<lparr>tracking_numbers = Some [[]], tracking_number = Some ''ABC'',
                             trackingNumber = None,
                             line_items = Some [\<lparr>item_tracking_number = Some ''X''\<rparr>]\<rparr>]\<rparr>
     = Some ''X''
   \<and> extractTracking_spec
     \<lparr>name = ''#1003'', email = None, created_at = 0, closed_at = None,
      fulfillments = Some [\<lparr>tracking_numbers = Some [[]], tracking_number = Some ''ABC'',
                             trackingNumber = None,
                             line_items = Some [\<lparr>item_tracking_number = Some ''X''\<rparr>]\<rparr>]\<rparr>
     = Some []"
  by (simp add: extractTracking_def extractTracking_spec_def firstFulfillment_def
      fulfillmentTracking_def truthy_def)

text \<open>
  C5, amended. The extraction is a total function of the order that reads the first
  fulfillment only and yields nothing when there is none. A tracking list whose first
  element is a non-empty string yields that element, whatever the other fields hold. When
  the list is missing or empty, the \<open>tracking_number\<close> field is taken if non-empty, else the
  \<open>trackingNumber\<close> field if non-empty, else the tracking number of the first line item that
  has a non-empty one, else nothing. When the list starts with an empty string, the first
  line item with a non-empty tracking number is taken, else that empty string.
\<close>

theorem extractTracking_fallback:
  "(fulfillments ord = None \<or> fulfillments ord = Some [] \<longrightarrow> extractTracking ord = None)
   \<and> (fulfillments ord = Some (f # fs) \<longrightarrow>
         extractTracking ord = extractTracking (ord\<lparr>fulfillments := Some [f]\<rparr>)
         \<and> (tracking_numbers f = Some (t # ts) \<and> t \<noteq> [] \<longrightarrow> extractTracking ord = Some t)
         \<and> (tracking_numbers f = Some ([] # ts) \<longrightarrow>
               extractTracking ord =
                 (case find (\<lambda>item. truthy (item_tracking_number item))
                         (case line_items f of None \<Rightarrow> [] | Some items \<Rightarrow> items) of
                    Some item \<Rightarrow> item_tracking_number item
                  | None \<Rightarrow> Some []))
         \<and> (tracking_numbers f = None \<or> tracking_numbers f = Some [] \<longrightarrow>
               extractTracking ord =
                 (if truthy (tracking_number f) then tracking_number f
                  else if truthy (trackingNumber f) then trackingNumber f
                  else (case find (\<lambda>item. truthy (item_tracking_number item))
                               (case line_items f of None \<Rightarrow> [] | Some items \<Rightarrow> items) of
                          Some item \<Rightarrow> item_tracking_number item
                        | None \<Rightarrow> None))))"
  by (auto simp add: extractTracking_def firstFulfillment_def fulfillmentTracking_def
      scanLineItems_find truthy_def split: option.splits list.splits)

theorem extractTracking_fallback_witness:
  "extractTracking
     \<lparr>name = ''#1004'', email = None, created_at = 0, closed_at = None,
      fulfillments = Some [\<lparr>tracking_numbers = Some [''1Z999'', ''1Z000''],
                             tracking_number = Some ''ABC'', trackingNumber = Some ''DEF'',
                             line_items = Some [\<lparr>item_tracking_number = Some ''X''\<rparr>]\<rparr>,
                           \<lparr>tracking_numbers = Some [''LATER''],
                             tracking_number = None, trackingNumber = None,
                             line_items = None\<rparr>]\<rparr>
     = Some ''1Z999''"
  using extractTracking_fallback
     [where ord = "\<lparr>name = ''#1004'', email = None, created_at = 0, closed_at = None,
      fulfillments = Some [\<lparr>tracking_numbers = Some [''1Z999'', ''1Z000''],
                             tracking_number = Some ''ABC'', trackingNumber = Some ''DEF'',
                             line_items = Some [\<lparr>item_tracking_number = Some ''X''\<rparr>]\<rparr>,
                           \<lparr>tracking_numbers = Some [''LATER''],
                             tracking_number = None, trackingNumber = None,
                             line_items = None\<rparr>]\<rparr>"
      and f = "\<lparr>tracking_numbers = Some [''1Z999'', ''1Z000''],
                             tracking_number = Some ''ABC'', trackingNumber = Some ''DEF'',
                             line_items = Some [\<lparr>item_tracking_number = Some ''X''\<rparr>]\<rparr>"
      and fs = "[\<lparr>tracking_numbers = Some [''LATER''],
                             tracking_number = None, trackingNumber = None,
                             line_items = None\<rparr>]"
      and t = "''1Z999''" and ts = "[''1Z000'']"]
  by auto


section \<open>Properties of the rate limiter\<close>

lemma isAllowed_other: "c \<noteq> ip \<Longrightarrow> snd (isAllowed reqs ip m w now) c = reqs c"
  by (simp add: isAllowed_def Let_def)

lemma isAllowed_stored:
  "snd (isAllowed reqs ip m w now) ip =
     Some (if m \<le> length (filter (\<lambda>t. now - w < t) (case reqs ip of None \<Rightarrow> [] | Some ts \<Rightarrow> ts))
           then filter (\<lambda>t. now - w < t) (case reqs ip of None \<Rightarrow> [] | Some ts \<Rightarrow> ts)
           else filter (\<lambda>t. now - w < t) (case reqs ip of None \<Rightarrow> [] | Some ts \<Rightarrow> ts) @ [now])"
  by (simp add: isAllowed_def Let_def split: option.splits)

lemma isAllowed_verdict:
  "fst (isAllowed reqs ip m w now) \<longleftrightarrow>
     length (filter (\<lambda>t. now - w < t) (case reqs ip of None \<Rightarrow> [] | Some ts \<Rightarrow> ts)) < m"
  by (auto simp add: isAllowed_def Let_def split: option.splits)

text \<open>
  C2 as stated fails at the edge of the window: a timestamp equal to \<open>now - windowMs\<close> is
  not older than \<open>now - windowMs\<close>, yet the limiter drops it. With a limit of one request
  per 1000 ms, a client admitted at 0 is admitted again at 1000, where the stated rule
  rejects.
\<close>

theorem isAllowed_window_edge_counterexample:
  "fst (isAllowed (snd (isAllowed Map.empty ''203.0.113.7'' 1 1000 0)) ''203.0.113.7'' 1 1000 1000)
   \<and> \<not> fst (admit_spec (snd (isAllowed Map.empty ''203.0.113.7'' 1 1000 0)) ''203.0.113.7'' 1 1000 1000)"
  by (simp add: isAllowed_def admit_spec_def)

text \<open>
  C2, amended. A call drops from the client's recorded sequence exactly the timestamps that
  are less than or equal to \<open>now - windowMs\<close> and keeps the others in order; when at least
  \<open>maxRequests\<close> remain it returns false and stores the remaining ones without appending,
  otherwise it stores them with \<open>now\<close> appended and returns true; the sequences of the
  other clients are untouched. With a limit of 2 per 1000 ms, calls of one client at 0, 100,
  200 and 1100 return true, true, false, true.
\<close>

theorem isAllowed_admission:
  "(fst (isAllowed reqs ip maxRequests windowMs now) \<longleftrightarrow>
      length (filter (\<lambda>t. \<not> t \<le> now - windowMs)
                (case reqs ip of None \<Rightarrow> [] | Some ts \<Rightarrow> ts)) < maxRequests)
   \<and> snd (isAllowed reqs ip maxRequests windowMs now) ip =
        Some (filter (\<lambda>t. \<not> t \<le> now - windowMs)
                (case reqs ip of None \<Rightarrow> [] | Some ts \<Rightarrow> ts)
              @ (if fst (isAllowed reqs ip maxRequests windowMs now) then [now] else []))
   \<and> (\<forall>c. c \<noteq> ip \<longrightarrow> snd (isAllowed reqs ip maxRequests windowMs now) c = reqs c)
   \<and> fst (callSequence 2 1000 Map.empty [(ip, 0), (ip, 100), (ip, 200), (ip, 1100)])
        = [True, True, False, True]"
proof -
  have f: "(\<lambda>t. \<not> t \<le> now - windowMs) = (\<lambda>t. now - windowMs < t)"
    by (simp add: not_le)
  have "fst (callSequence 2 1000 Map.empty [(ip, 0), (ip, 100), (ip, 200), (ip, 1100)])
          = [True, True, False, True]"
    by (simp add: isAllowed_def)
  then show ?thesis
    unfolding f using isAllowed_verdict [of reqs ip maxRequests windowMs now]
      isAllowed_stored [of reqs ip maxRequests windowMs now]
      isAllowed_other [of _ ip reqs maxRequests windowMs now]
    by (simp add: not_less)
qed

theorem isAllowed_admission_witness:
  "fst (isAllowed (Map.empty(''203.0.113.7'' \<mapsto> [0, 1, 500])) ''203.0.113.7'' 2 1000 1001)
   \<and> snd (isAllowed (Map.empty(''203.0.113.7'' \<mapsto> [0, 1, 500])) ''203.0.113.7'' 2 1000 1001) ''203.0.113.7''
       = Some [500, 1001]
   \<and> ''198.51.100.9'' \<noteq> ''203.0.113.7''
   \<and> snd (isAllowed (Map.empty(''203.0.113.7'' \<mapsto> [0, 1, 500])) ''203.0.113.7'' 2 1000 1001) ''198.51.100.9''
       = None"
  using isAllowed_admission [of "Map.empty(''203.0.113.7'' \<mapsto> [0, 1, 500])" "''203.0.113.7''" 2 1000 1001]
  by simp

lemma callSequence_snoc:
  "snd (callSequence m w reqs (calls @ [(ip, now)])) =
     snd (isAllowed (snd (callSequence m w reqs calls)) ip m w now)"
  by (induction calls arbitrary: reqs) (auto simp add: Let_def case_prod_beta)

lemma lastCall_snoc:
  "lastCall c (calls @ [(ip, now)]) = (if c = ip then Some now else lastCall c calls)"
  by (simp add: lastCall_def Let_def)

lemma lastCall_mem: "lastCall c calls = Some n \<Longrightarrow> n \<in> snd ` set calls"
proof -
  assume h: "lastCall c calls = Some n"
  let ?touching = "filter (\<lambda>call. fst call = c) calls"
  from h have ne: "?touching \<noteq> []" and n: "n = snd (last ?touching)"
    by (auto simp add: lastCall_def Let_def split: if_splits)
  from ne have "last ?touching \<in> set ?touching"
    by (rule last_in_set)
  then have "last ?touching \<in> set calls" by simp
  then show ?thesis using n by blast
qed

lemma limiter_inv:
  assumes "sorted (map snd calls)" and "0 < w"
    and "snd (callSequence m w Map.empty calls) c = Some ts"
  shows "length ts \<le> m \<and> (\<exists>n. lastCall c calls = Some n \<and> (\<forall>t\<in>set ts. n - w < t \<and> t \<le> n))"
  using assms
proof (induction calls arbitrary: c ts rule: rev_induct)
  case Nil
  then show ?case by simp
next
  case (snoc x xs)
  obtain ip now where x: "x = (ip, now)" by (cases x)
  let ?st = "snd (callSequence m w Map.empty xs)"
  from snoc.prems(1) have srt: "sorted (map snd xs)" and le: "\<forall>y\<in>set xs. snd y \<le> now"
    by (auto simp add: x sorted_append)
  have st': "snd (callSequence m w Map.empty (xs @ [x])) = snd (isAllowed ?st ip m w now)"
    unfolding x by (rule callSequence_snoc)
  show ?case
  proof (cases "c = ip")
    case False
    then have "?st c = Some ts"
      using snoc.prems(3) st' isAllowed_other by simp
    from snoc.IH [OF srt snoc.prems(2) this] show ?thesis
      using False by (simp add: x lastCall_snoc)
  next
    case True
    let ?old = "case ?st ip of None \<Rightarrow> [] | Some ts \<Rightarrow> ts"
    let ?valid = "filter (\<lambda>t. now - w < t) ?old"
    have ts: "ts = (if m \<le> length ?valid then ?valid else ?valid @ [now])"
      using snoc.prems(3) st' isAllowed_stored [of ?st ip m w now] True by simp
    have old: "length ?old \<le> m \<and> (\<forall>t\<in>set ?old. t \<le> now)"
    proof (cases "?st ip")
      case None
      then show ?thesis by simp
    next
      case (Some old)
      from snoc.IH [OF srt snoc.prems(2) Some] obtain n where
        l: "length old \<le> m" and n: "lastCall ip xs = Some n" and b: "\<forall>t\<in>set old. n - w < t \<and> t \<le> n"
        by blast
      from lastCall_mem [OF n] le have "n \<le> now" by auto
      with l b Some show ?thesis by fastforce
    qed
    have len: "length ?valid \<le> m"
      using old le_trans [OF length_filter_le] by blast
    have "length ts \<le> m"
      unfolding ts using len by auto
    moreover have "\<forall>t\<in>set ts. now - w < t \<and> t \<le> now"
      unfolding ts using old snoc.prems(2) by auto
    ultimately show ?thesis
      using True by (simp add: x lastCall_snoc)
  qed
qed

text \<open>
  C10. Along every sequence of calls with non-decreasing clock values, starting from the
  empty limiter and with one configuration whose window is positive, after every call (after
  the first \<open>k\<close> calls, for every \<open>k\<close>) the list stored for any client has at most
  \<open>maxRequests\<close> entries, and each entry lies in the window of the last call that named that
  client: above that call's \<open>now - windowMs\<close>, and not after its \<open>now\<close>.
\<close>

theorem rateLimiter_invariant:
  assumes "sorted (map snd calls)" and "0 < windowMs" and "k \<le> length calls"
    and "snd (callSequence maxRequests windowMs Map.empty (take k calls)) c = Some ts"
  shows "length ts \<le> maxRequests
       \<and> (\<exists>n. lastCall c (take k calls) = Some n \<and> (\<forall>t\<in>set ts. n - windowMs < t \<and> t \<le> n))"
proof -
  have "sorted (map snd (take k calls))"
    using assms(1) sorted_wrt_take [of "(\<le>)" "map snd calls" k] by (simp add: take_map)
  from limiter_inv [OF this assms(2) assms(4)] show ?thesis .
qed

theorem rateLimiter_invariant_witness:
  "sorted (map snd [(''203.0.113.7'', 0::int), (''203.0.113.7'', 100), (''203.0.113.7'', 200), (''198.51.100.9'', 250), (''203.0.113.7'', 1100)])
   \<and> snd (callSequence 2 1000 Map.empty
             (take 3 [(''203.0.113.7'', 0), (''203.0.113.7'', 100), (''203.0.113.7'', 200), (''198.51.100.9'', 250), (''203.0.113.7'', 1100)])) ''203.0.113.7''
       = Some [0, 100]
   \<and> length [0::int, 100] \<le> 2
   \<and> lastCall ''203.0.113.7'' (take 3 [(''203.0.113.7'', 0), (''203.0.113.7'', 100), (''203.0.113.7'', 200), (''198.51.100.9'', 250), (''203.0.113.7'', 1100)])
       = Some 200"
  using rateLimiter_invariant
    [of "[(''203.0.113.7'', 0), (''203.0.113.7'', 100), (''203.0.113.7'', 200), (''198.51.100.9'', 250), (''203.0.113.7'', 1100)]"
        1000 3 2 "''203.0.113.7''" "[0, 100]"]
  by (simp add: isAllowed_def lastCall_def)


section \<open>Properties of the order locator\<close>

lemma toLowerCase_Nil: "toLowerCase e' = toLowerCase e \<Longrightarrow> e \<noteq> [] \<Longrightarrow> e' \<noteq> []"
  by (auto simp add: toLowerCase_def)

lemma emailMatches_iff:
  "e \<noteq> [] \<Longrightarrow> emailMatches e ord \<longleftrightarrow> map_option toLowerCase (email ord) = Some (toLowerCase e)"
  using toLowerCase_Nil by (auto simp add: emailMatches_def split: option.splits)

lemma getOrder_reaches:
  assumes "truthy orderNo \<or> truthy emailArg"
    and "fetch (orderQuery orderNo emailArg) = FetchResponse st (Inr dat)"
    and "ok st" and "(case dat of None \<Rightarrow> [] | Some os \<Rightarrow> os) = r # rs"
  shows "getOrder fetch orderNo emailArg =
           (if truthy orderNo \<and> truthy emailArg
            then (case find (emailMatches (case emailArg of Some e \<Rightarrow> e | None \<Rightarrow> [])) (r # rs) of
                    Some found \<Rightarrow> (Inr (Some found), 1)
                  | None \<Rightarrow> (Inr (Some r), 1))
            else (case sortBy byCreatedDesc (r # rs) of
                    newest # rest \<Rightarrow> (Inr (Some newest), 1)
                  | [] \<Rightarrow> (Inr None, 1)))"
  using assms by (auto simp add: getOrder_def Let_def)

text \<open>
  C3. When an order number and an email are both supplied and the upstream store answers
  with a non-empty list of orders: if some order of the list has an email that equals the
  supplied one after lowercasing both, the first such order is selected; if none has, the
  first order of the list is selected, and the result is never "not found".
\<close>

theorem getOrder_both_criteria:
  assumes "n \<noteq> []" and "e \<noteq> []"
    and "fetch (orderQuery (Some n) (Some e)) = FetchResponse st (Inr (Some R))"
    and "ok st" and "R \<noteq> []"
  shows "\<exists>sel. fst (getOrder fetch (Some n) (Some e)) = Inr (Some sel)
           \<and> ((\<exists>cand\<in>set R. map_option toLowerCase (email cand) = Some (toLowerCase e)) \<longrightarrow>
                 (\<exists>i<length R. sel = R ! i
                    \<and> map_option toLowerCase (email (R ! i)) = Some (toLowerCase e)
                    \<and> (\<forall>j<i. map_option toLowerCase (email (R ! j)) \<noteq> Some (toLowerCase e))))
           \<and> ((\<forall>cand\<in>set R. map_option toLowerCase (email cand) \<noteq> Some (toLowerCase e)) \<longrightarrow>
                 sel = R ! 0)"
proof -
  from assms(5) obtain r rs where R: "R = r # rs" by (cases R) auto
  have g: "getOrder fetch (Some n) (Some e) =
             (case find (emailMatches e) R of
                Some found \<Rightarrow> (Inr (Some found), 1) | None \<Rightarrow> (Inr (Some r), 1))"
    using getOrder_reaches [of "Some n" "Some e" fetch st "Some R" r rs] assms R
    by (simp add: truthy_def)
  show ?thesis
  proof (cases "find (emailMatches e) R")
    case None
    then have "\<forall>cand\<in>set R. map_option toLowerCase (email cand) \<noteq> Some (toLowerCase e)"
      using emailMatches_iff [OF assms(2)] by (auto simp add: find_None_iff)
    then show ?thesis using g None R by auto
  next
    case (Some found)
    then obtain i where i: "i < length R" "emailMatches e (R ! i)" "found = R ! i"
      "\<forall>j<i. \<not> emailMatches e (R ! j)"
      by (auto simp add: find_Some_iff)
    have "fst (getOrder fetch (Some n) (Some e)) = Inr (Some found)"
      using g Some by simp
    moreover have "\<exists>i<length R. found = R ! i
                    \<and> map_option toLowerCase (email (R ! i)) = Some (toLowerCase e)
                    \<and> (\<forall>j<i. map_option toLowerCase (email (R ! j)) \<noteq> Some (toLowerCase e))"
      using i emailMatches_iff [OF assms(2)] by blast
    moreover have "\<not> (\<forall>cand\<in>set R. map_option toLowerCase (email cand) \<noteq> Some (toLowerCase e))"
      using i emailMatches_iff [OF assms(2)] nth_mem by blast
    ultimately show ?thesis by blast
  qed
qed

theorem getOrder_both_criteria_witness:
  "fst (getOrder (\<lambda>q. FetchResponse 200 (Inr (Some
                [\<lparr>name = ''#1001'', email = Some ''pat@example.com'', created_at = 300,
                   closed_at = None, fulfillments = None\<rparr>,
                 \<lparr>name = ''#1001'', email = Some ''SAM@Example.com'', created_at = 100,
                   closed_at = None, fulfillments = None\<rparr>,
                 \<lparr>name = ''#1001'', email = Some ''sam@example.com'', created_at = 200,
                   closed_at = None, fulfillments = None\<rparr>])))
          (Some ''1001'') (Some ''Sam@Example.COM''))
     = Inr (Some \<lparr>name = ''#1001'', email = Some ''SAM@Example.com'', created_at = 100,
                   closed_at = None, fulfillments = None\<rparr>)
   \<and> fst (getOrder (\<lambda>q. FetchResponse 200 (Inr (Some
                [\<lparr>name = ''#1001'', email = Some ''pat@example.com'', created_at = 300,
                   closed_at = None, fulfillments = None\<rparr>,
                 \<lparr>name = ''#1001'', email = None, created_at = 100,
                   closed_at = None, fulfillments = None\<rparr>])))
          (Some ''1001'') (Some ''Sam@Example.COM''))
     = Inr (Some \<lparr>name = ''#1001'', email = Some ''pat@example.com'', created_at = 300,
                   closed_at = None, fulfillments = None\<rparr>)"
proof -
  have n: "''1001'' \<noteq> []" and e: "''Sam@Example.COM'' \<noteq> []" and k: "ok 200"
    by (simp_all add: ok_def)
  have r: "
                [\<lparr>name = ''#1001'', email = Some ''pat@example.com'', created_at = 300,
                   closed_at = None, fulfillments = None\<rparr>,
                 \<lparr>name = ''#1001'', email = Some ''SAM@Example.com'', created_at = 100,
                   closed_at = None, fulfillments = None\<rparr>,
                 \<lparr>name = ''#1001'', email = Some ''sam@example.com'', created_at = 200,
                   closed_at = None, fulfillments = None\<rparr>] \<noteq> []"
    by simp
  have r': "
                [\<lparr>name = ''#1001'', email = Some ''pat@example.com'', created_at = 300,
                   closed_at = None, fulfillments = None\<rparr>,
                 \<lparr>name = ''#1001'', email = None, created_at = 100,
                   closed_at = None, fulfillments = None\<rparr>] \<noteq> []"
    by simp
  note t = getOrder_both_criteria
     [of "''1001''" "''Sam@Example.COM''" "\<lambda>q. FetchResponse 200 (Inr (Some 
                [\<lparr>name = ''#1001'', email = Some ''pat@example.com'', created_at = 300,
                   closed_at = None, fulfillments = None\<rparr>,
                 \<lparr>name = ''#1001'', email = Some ''SAM@Example.com'', created_at = 100,
                   closed_at = None, fulfillments = None\<rparr>,
                 \<lparr>name = ''#1001'', email = Some ''sam@example.com'', created_at = 200,
                   closed_at = None, fulfillments = None\<rparr>]))" 200 "
                [\<lparr>name = ''#1001'', email = Some ''pat@example.com'', created_at = 300,
                   closed_at = None, fulfillments = None\<rparr>,
                 \<lparr>name = ''#1001'', email = Some ''SAM@Example.com'', created_at = 100,
                   closed_at = None, fulfillments = None\<rparr>,
                 \<lparr>name = ''#1001'', email = Some ''sam@example.com'', created_at = 200,
                   closed_at = None, fulfillments = None\<rparr>]",
      OF n e refl k r]
  note t' = getOrder_both_criteria
     [of "''1001''" "''Sam@Example.COM''" "\<lambda>q. FetchResponse 200 (Inr (Some 
                [\<lparr>name = ''#1001'', email = Some ''pat@example.com'', created_at = 300,
                   closed_at = None, fulfillments = None\<rparr>,
                 \<lparr>name = ''#1001'', email = None, created_at = 100,
                   closed_at = None, fulfillments = None\<rparr>]))" 200 "
                [\<lparr>name = ''#1001'', email = Some ''pat@example.com'', created_at = 300,
                   closed_at = None, fulfillments = None\<rparr>,
                 \<lparr>name = ''#1001'', email = None, created_at = 100,
                   closed_at = None, fulfillments = None\<rparr>]",
      OF n e refl k r']
  from t obtain sel where
    s: "fst (getOrder (\<lambda>q. FetchResponse 200 (Inr (Some 
                [\<lparr>name = ''#1001'', email = Some ''pat@example.com'', created_at = 300,
                   closed_at = None, fulfillments = None\<rparr>,
                 \<lparr>name = ''#1001'', email = Some ''SAM@Example.com'', created_at = 100,
                   closed_at = None, fulfillments = None\<rparr>,
                 \<lparr>name = ''#1001'', email = Some ''sam@example.com'', created_at = 200,
                   closed_at = None, fulfillments = None\<rparr>])))
               (Some ''1001'') (Some ''Sam@Example.COM'')) = Inr (Some sel)"
    by blast
  from t' obtain sel' where
    s': "fst (getOrder (\<lambda>q. FetchResponse 200 (Inr (Some 
                [\<lparr>name = ''#1001'', email = Some ''pat@example.com'', created_at = 300,
                   closed_at = None, fulfillments = None\<rparr>,
                 \<lparr>name = ''#1001'', email = None, created_at = 100,
                   closed_at = None, fulfillments = None\<rparr>])))
               (Some ''1001'') (Some ''Sam@Example.COM'')) = Inr (Some sel')"
    by blast
  have "fst (getOrder (\<lambda>q. FetchResponse 200 (Inr (Some 
                [\<lparr>name = ''#1001'', email = Some ''pat@example.com'', created_at = 300,
                   closed_at = None, fulfillments = None\<rparr>,
                 \<lparr>name = ''#1001'', email = Some ''SAM@Example.com'', created_at = 100,
                   closed_at = None, fulfillments = None\<rparr>,
                 \<lparr>name = ''#1001'', email = Some ''sam@example.com'', created_at = 200,
                   closed_at = None, fulfillments = None\<rparr>])))
               (Some ''1001'') (Some ''Sam@Example.COM''))
          = Inr (Some \<lparr>name = ''#1001'', email = Some ''SAM@Example.com'', created_at = 100,
                        closed_at = None, fulfillments = None\<rparr>)"
    by code_simp
  moreover have "fst (getOrder (\<lambda>q. FetchResponse 200 (Inr (Some 
                [\<lparr>name = ''#1001'', email = Some ''pat@example.com'', created_at = 300,
                   closed_at = None, fulfillments = None\<rparr>,
                 \<lparr>name = ''#1001'', email = None, created_at = 100,
                   closed_at = None, fulfillments = None\<rparr>])))
               (Some ''1001'') (Some ''Sam@Example.COM''))
          = Inr (Some \<lparr>name = ''#1001'', email = Some ''pat@example.com'', created_at = 300,
                        closed_at = None, fulfillments = None\<rparr>)"
    by code_simp
  ultimately show ?thesis
    using s s' by simp
qed

lemma sortBy_Cons: "sortBy cmp (x # xs) = insertBy cmp x (sortBy cmp xs)"
  by (simp add: sortBy_def)

lemma sortBy_Nil_iff: "sortBy cmp xs = [] \<longleftrightarrow> xs = []"
proof (cases xs)
  case Nil
  then show ?thesis by (simp add: sortBy_def)
next
  case (Cons x xs')
  then show ?thesis by (cases "sortBy cmp xs'") (simp_all add: sortBy_Cons)
qed

lemma hd_insertBy:
  "hd (insertBy cmp x ys) = (if ys = [] \<or> cmp x (hd ys) \<le> 0 then x else hd ys)"
  by (cases ys) simp_all

lemma newest_first:
  "xs \<noteq> [] \<Longrightarrow>
     \<exists>i<length xs. hd (sortBy byCreatedDesc xs) = xs ! i
        \<and> (\<forall>j<length xs. created_at (xs ! j) \<le> created_at (xs ! i))
        \<and> (\<forall>j<i. created_at (xs ! j) < created_at (xs ! i))"
proof (induction xs)
  case Nil
  then show ?case by simp
next
  case (Cons x xs)
  show ?case
  proof (cases "xs = []")
    case True
    then show ?thesis by (simp add: sortBy_def)
  next
    case False
    from Cons.IH [OF False] obtain i where i: "i < length xs"
      "hd (sortBy byCreatedDesc xs) = xs ! i"
      "\<forall>j<length xs. created_at (xs ! j) \<le> created_at (xs ! i)"
      "\<forall>j<i. created_at (xs ! j) < created_at (xs ! i)"
      by blast
    have ne: "sortBy byCreatedDesc xs \<noteq> []"
      using False by (simp add: sortBy_Nil_iff)
    show ?thesis
    proof (cases "created_at (xs ! i) \<le> created_at x")
      case True
      then have h: "hd (sortBy byCreatedDesc (x # xs)) = x"
        using ne i(2) by (simp add: sortBy_Cons hd_insertBy byCreatedDesc_def)
      have "\<forall>j<length (x # xs). created_at ((x # xs) ! j) \<le> created_at x"
      proof (intro allI impI)
        fix j assume "j < length (x # xs)"
        then show "created_at ((x # xs) ! j) \<le> created_at x"
          using i(3) True by (cases j) (auto intro: order_trans)
      qed
      then show ?thesis using h by (intro exI [of _ 0]) simp
    next
      case False
      then have h: "hd (sortBy byCreatedDesc (x # xs)) = xs ! i"
        using ne i(2) by (simp add: sortBy_Cons hd_insertBy byCreatedDesc_def)
      have a: "\<forall>j<length (x # xs). created_at ((x # xs) ! j) \<le> created_at (xs ! i)"
      proof (intro allI impI)
        fix j assume "j < length (x # xs)"
        then show "created_at ((x # xs) ! j) \<le> created_at (xs ! i)"
          using i(3) False by (cases j) auto
      qed
      have b: "\<forall>j<Suc i. created_at ((x # xs) ! j) < created_at (xs ! i)"
      proof (intro allI impI)
        fix j assume "j < Suc i"
        then show "created_at ((x # xs) ! j) < created_at (xs ! i)"
          using i(4) False by (cases j) auto
      qed
      show ?thesis using h a b i(1) by (intro exI [of _ "Suc i"]) simp
    qed
  qed
qed

text \<open>
  C4. When exactly one of order number and email is supplied and the upstream store answers
  with a non-empty list of orders, the selected order has the greatest creation time of the
  list, and every order that stands before it in the list is strictly older: among the
  orders that share the greatest creation time, the earliest of the list is selected.
\<close>

theorem getOrder_single_criterion:
  assumes "truthy orderNo \<noteq> truthy emailArg"
    and "fetch (orderQuery orderNo emailArg) = FetchResponse st (Inr (Some R))"
    and "ok st" and "R \<noteq> []"
  shows "\<exists>i<length R. fst (getOrder fetch orderNo emailArg) = Inr (Some (R ! i))
           \<and> (\<forall>j<length R. created_at (R ! j) \<le> created_at (R ! i))
           \<and> (\<forall>j<i. created_at (R ! j) < created_at (R ! i))"
proof -
  from assms(4) obtain r rs where R: "R = r # rs" by (cases R) auto
  have ne: "sortBy byCreatedDesc R \<noteq> []"
    using assms(4) by (simp add: sortBy_Nil_iff)
  have "getOrder fetch orderNo emailArg =
          (case sortBy byCreatedDesc R of
             newest # rest \<Rightarrow> (Inr (Some newest), 1) | [] \<Rightarrow> (Inr None, 1))"
    using getOrder_reaches [of orderNo emailArg fetch st "Some R" r rs] assms R
    by auto
  then have "fst (getOrder fetch orderNo emailArg) = Inr (Some (hd (sortBy byCreatedDesc R)))"
    using ne by (cases "sortBy byCreatedDesc R") simp_all
  then show ?thesis
    using newest_first [OF assms(4)] by auto
qed

theorem getOrder_single_criterion_witness:
  "truthy None \<noteq> truthy (Some ''sam@example.com'')
   \<and> fst (getOrder (\<lambda>q. FetchResponse 200 (Inr (Some
                [\<lparr>name = ''#1001'', email = Some ''sam@example.com'', created_at = 100,
                   closed_at = None, fulfillments = None\<rparr>,
                 \<lparr>name = ''#1002'', email = Some ''sam@example.com'', created_at = 300,
                   closed_at = None, fulfillments = None\<rparr>,
                 \<lparr>name = ''#1003'', email = Some ''sam@example.com'', created_at = 300,
                   closed_at = None, fulfillments = None\<rparr>,
                 \<lparr>name = ''#1004'', email = Some ''sam@example.com'', created_at = 200,
                   closed_at = None, fulfillments = None\<rparr>])))
          None (Some ''sam@example.com''))
     = Inr (Some \<lparr>name = ''#1002'', email = Some ''sam@example.com'', created_at = 300,
                   closed_at = None, fulfillments = None\<rparr>)"
  using getOrder_single_criterion
     [of None "Some ''sam@example.com''"
         "\<lambda>q. FetchResponse 200 (Inr (Some
                [\<lparr>name = ''#1001'', email = Some ''sam@example.com'', created_at = 100,
                   closed_at = None, fulfillments = None\<rparr>,
                 \<lparr>name = ''#1002'', email = Some ''sam@example.com'', created_at = 300,
                   closed_at = None, fulfillments = None\<rparr>,
                 \<lparr>name = ''#1003'', email = Some ''sam@example.com'', created_at = 300,
                   closed_at = None, fulfillments = None\<rparr>,
                 \<lparr>name = ''#1004'', email = Some ''sam@example.com'', created_at = 200,
                   closed_at = None, fulfillments = None\<rparr>]))"
         200 "[\<lparr>name = ''#1001'', email = Some ''sam@example.com'', created_at = 100,
                   closed_at = None, fulfillments = None\<rparr>,
                 \<lparr>name = ''#1002'', email = Some ''sam@example.com'', created_at = 300,
                   closed_at = None, fulfillments = None\<rparr>,
                 \<lparr>name = ''#1003'', email = Some ''sam@example.com'', created_at = 300,
                   closed_at = None, fulfillments = None\<rparr>,
                 \<lparr>name = ''#1004'', email = Some ''sam@example.com'', created_at = 200,
                   closed_at = None, fulfillments = None\<rparr>]"]
  by (simp add: getOrder_def orderQuery_def ok_def truthy_def sortBy_def byCreatedDesc_def Let_def)


section \<open>Properties of the tracking endpoint\<close>

lemmas track_eval =
  handleTrack_def isAllowed_def clientIP_def truthy_def validateEmail_def emailChar_def
  whiteSpace_def getOrder_def orderQuery_def ok_def
  displayName_def startsWith_def sortBy_def byCreatedDesc_def emailMatches_def
  determineOrderStatus_index_def extractTracking_def firstFulfillment_def
  fulfillmentTracking_def hoursSince_def trackError_def Let_def

lemma split_last_digit:
  fixes m c :: nat
  assumes "c < 10"
  shows "(10 * m + c) div 10 = m" and "(10 * m + c) mod 10 = c"
proof -
  have "(c + 10 * m) div 10 = m + c div 10"
    by (rule div_mult_self2) simp
  then show "(10 * m + c) div 10 = m"
    using assms by (simp add: add.commute)
  have "(c + 10 * m) mod 10 = c mod 10"
    by (rule mod_mult_self2)
  then show "(10 * m + c) mod 10 = c"
    using assms by (simp add: add.commute)
qed

lemma string_of_nat_digits:
  assumes "1 \<le> a" and "a < 10" and "b < 10" and "c < 10"
  shows "string_of_nat (100 * a + 10 * b + c) = [digit_char a, digit_char b, digit_char c]"
proof -
  have e: "100 * a + 10 * b + c = 10 * (10 * a + b) + c" by simp
  have n: "\<not> 10 * (10 * a + b) + c < 10" using assms by simp
  have n': "\<not> 10 * a + b < 10" using assms by simp
  have s0: "string_of_nat a = [digit_char a]"
    using assms string_of_nat.simps [of a] by simp
  have s1: "string_of_nat (10 * a + b) = [digit_char a, digit_char b]"
    using string_of_nat.simps [of "10 * a + b"] n' split_last_digit [OF assms(3), of a] s0
    by simp
  have "string_of_nat (10 * (10 * a + b) + c) = [digit_char a, digit_char b, digit_char c]"
    using string_of_nat.simps [of "10 * (10 * a + b) + c"] n
      split_last_digit [OF assms(4), of "10 * a + b"] s1
    by simp
  then show ?thesis unfolding e .
qed

lemma three_digits:
  assumes "100 \<le> st" and "st \<le> 999"
  obtains a b c :: nat where "st = 100 * a + 10 * b + c" and "1 \<le> a" and "a < 10" and "b < 10" and "c < 10"
proof
  let ?m = "st div 10"
  have m: "st = 10 * ?m + st mod 10" by simp
  have m': "?m = 10 * (?m div 10) + ?m mod 10" by simp
  show "st = 100 * (?m div 10) + 10 * (?m mod 10) + st mod 10"
    using m m' by linarith
  have lo: "10 \<le> ?m" using assms(1) by linarith
  have hi: "?m < 100" using assms(2) by linarith
  show "1 \<le> ?m div 10" using lo by linarith
  show "?m div 10 < 10" using hi by linarith
  show "?m mod 10 < 10" by simp
  show "st mod 10 < 10" by simp
qed

lemma trackError_chars:
  "trackError (''Shopify API error: '' @ [x, y, z]) =
     (if x = CHR ''4'' \<and> y = CHR ''0'' \<and> z = CHR ''1''
      then ErrorResponse ''Authentication failed'' ''Shopify API authentication error''
             ''SHOPIFY_AUTH_ERROR'' 500
      else if x = CHR ''4'' \<and> y = CHR ''0'' \<and> z = CHR ''3''
      then ErrorResponse ''Access denied'' ''Shopify API access denied''
             ''SHOPIFY_ACCESS_DENIED'' 500
      else if x = CHR ''5''
      then ErrorResponse ''Service unavailable'' ''Shopify API is currently unavailable''
             ''SHOPIFY_SERVICE_UNAVAILABLE'' 503
      else ErrorResponse ''Internal server error''
             ''An unexpected error occurred while processing your request''
             ''INTERNAL_ERROR'' 500)"
  by (simp add: trackError_def eq_commute [of "CHR ''4''"] eq_commute [of "CHR ''0''"]
      eq_commute [of "CHR ''1''"] eq_commute [of "CHR ''3''"] eq_commute [of "CHR ''5''"])

lemma digit_cases:
  "d < 10 \<Longrightarrow> d = 0 \<or> d = 1 \<or> d = 2 \<or> d = 3 \<or> d = 4 \<or> d = 5 \<or> d = 6 \<or> d = 7 \<or> d = 8 \<or> d = (9::nat)"
  by arith

lemma digit_char_eq:
  assumes "d < 10"
  shows "(digit_char d = CHR ''0'') = (d = 0)" and "(digit_char d = CHR ''1'') = (d = 1)"
    and "(digit_char d = CHR ''3'') = (d = 3)" and "(digit_char d = CHR ''4'') = (d = 4)"
    and "(digit_char d = CHR ''5'') = (d = 5)"
  using digit_cases [OF assms] by (auto simp add: digit_char_def)

lemma trackError_status:
  assumes "100 \<le> st" and "st \<le> 999"
  shows "trackError (''Shopify API error: '' @ string_of_nat st) =
           (if st = 401
            then ErrorResponse ''Authentication failed'' ''Shopify API authentication error''
                   ''SHOPIFY_AUTH_ERROR'' 500
            else if st = 403
            then ErrorResponse ''Access denied'' ''Shopify API access denied''
                   ''SHOPIFY_ACCESS_DENIED'' 500
            else if 500 \<le> st \<and> st \<le> 599
            then ErrorResponse ''Service unavailable'' ''Shopify API is currently unavailable''
                   ''SHOPIFY_SERVICE_UNAVAILABLE'' 503
            else ErrorResponse ''Internal server error''
                   ''An unexpected error occurred while processing your request''
                   ''INTERNAL_ERROR'' 500)"
proof -
  from three_digits [OF assms] obtain a b c where
    st: "st = 100 * a + 10 * b + c" and a: "1 \<le> a" "a < 10" and b: "b < 10" and c: "c < 10"
    by blast
  have dc: "c = st mod 10" and db: "b = st div 10 mod 10" and da: "a = st div 10 div 10"
    using split_last_digit [OF c, of "10 * a + b"] split_last_digit [OF b, of a]
    by (simp_all add: st)
  have e401: "st = 401 \<longleftrightarrow> a = 4 \<and> b = 0 \<and> c = 1"
  proof
    assume "st = 401"
    then show "a = 4 \<and> b = 0 \<and> c = 1" using da db dc by simp
  next
    assume "a = 4 \<and> b = 0 \<and> c = 1"
    then show "st = 401" by (simp add: st)
  qed
  have e403: "st = 403 \<longleftrightarrow> a = 4 \<and> b = 0 \<and> c = 3"
  proof
    assume "st = 403"
    then show "a = 4 \<and> b = 0 \<and> c = 3" using da db dc by simp
  next
    assume "a = 4 \<and> b = 0 \<and> c = 3"
    then show "st = 403" by (simp add: st)
  qed
  have e5: "500 \<le> st \<and> st \<le> 599 \<longleftrightarrow> a = 5"
  proof
    assume "500 \<le> st \<and> st \<le> 599"
    then show "a = 5" unfolding da by linarith
  next
    assume "a = 5"
    then show "500 \<le> st \<and> st \<le> 599" using b c by (simp add: st)
  qed
  have s: "string_of_nat st = [digit_char a, digit_char b, digit_char c]"
    unfolding st using a b c by (rule string_of_nat_digits)
  show ?thesis
    unfolding s trackError_chars e401 e403 e5
    by (simp only: digit_char_eq [OF a(2)] digit_char_eq [OF b] digit_char_eq [OF c])
qed

lemma getOrder_not_ok:
  assumes "truthy orderNo \<or> truthy emailArg"
    and "fetch (orderQuery orderNo emailArg) = FetchResponse st json"
    and "\<not> ok st"
  shows "getOrder fetch orderNo emailArg = (Inl (''Shopify API error: '' @ string_of_nat st), 1)"
  using assms by (auto simp add: getOrder_def Let_def)

lemma handleTrack_reaches:
  assumes "fst (isAllowed limiter (clientIP request) 100 (15 * 60 * 1000) now)"
    and "body request = Inr (orderNo, emailArg)"
    and "truthy orderNo \<or> truthy emailArg"
    and "\<forall>n. orderNo = Some n \<and> n \<noteq> [] \<longrightarrow> validateOrderNumber n"
    and "\<forall>e. emailArg = Some e \<and> e \<noteq> [] \<longrightarrow> validateEmail e"
    and "getOrder fetch orderNo emailArg = (Inl msg, calls)"
  shows "fst (handleTrack limiter fetch now nowIso request) = trackError msg"
    and "snd (snd (handleTrack limiter fetch now nowIso request)) = calls"
  using assms
  by (auto simp add: handleTrack_def Let_def truthy_def case_prod_beta split: option.splits)

text \<open>
  C8 as stated fails: an upstream answer 404 is neither a success nor one of the three
  upstream failure kinds; the endpoint reports the generic internal error.
\<close>

theorem handleTrack_upstream_404_counterexample:
  "responseCode (fst (handleTrack Map.empty (\<lambda>q. FetchResponse 404 (Inl ''Not Found''))
                        0 ''2024-01-15T10:30:00.000Z''
          \<lparr>cf_connecting_ip = Some ''203.0.113.7'', x_forwarded_for = None,
           body = Inr (None, Some ''sam@example.com'')\<rparr>))
     = Some ''INTERNAL_ERROR''
   \<and> ''INTERNAL_ERROR'' \<notin> set upstreamFailureCodes"
  by (simp add: track_eval upstreamFailureCodes_def string_of_nat.simps digit_char_def)

text \<open>
  C8, amended. When a request is admitted by the limiter and passes validation, and the
  upstream store answers its query with a three-digit status outside 200-299, the endpoint
  returns an error response, never a success, after exactly one upstream call: 401 gives
  SHOPIFY_AUTH_ERROR, 403 gives SHOPIFY_ACCESS_DENIED, every status from 500 to 599 gives
  SHOPIFY_SERVICE_UNAVAILABLE, and every other such status gives INTERNAL_ERROR.
\<close>

theorem handleTrack_upstream_status:
  assumes "fst (isAllowed limiter (clientIP request) 100 (15 * 60 * 1000) now)"
    and "body request = Inr (orderNo, emailArg)"
    and "truthy orderNo \<or> truthy emailArg"
    and "\<forall>n. orderNo = Some n \<and> n \<noteq> [] \<longrightarrow> validateOrderNumber n"
    and "\<forall>e. emailArg = Some e \<and> e \<noteq> [] \<longrightarrow> validateEmail e"
    and "fetch (orderQuery orderNo emailArg) = FetchResponse st json"
    and "\<not> ok st" and "100 \<le> st" and "st \<le> 999"
  shows "fst (handleTrack limiter fetch now nowIso request) =
           (if st = 401
            then ErrorResponse ''Authentication failed'' ''Shopify API authentication error''
                   ''SHOPIFY_AUTH_ERROR'' 500
            else if st = 403
            then ErrorResponse ''Access denied'' ''Shopify API access denied''
                   ''SHOPIFY_ACCESS_DENIED'' 500
            else if 500 \<le> st \<and> st \<le> 599
            then ErrorResponse ''Service unavailable'' ''Shopify API is currently unavailable''
                   ''SHOPIFY_SERVICE_UNAVAILABLE'' 503
            else ErrorResponse ''Internal server error''
                   ''An unexpected error occurred while processing your request''
                   ''INTERNAL_ERROR'' 500)
       \<and> snd (snd (handleTrack limiter fetch now nowIso request)) = 1"
proof -
  have g: "getOrder fetch orderNo emailArg = (Inl (''Shopify API error: '' @ string_of_nat st), 1)"
    using assms(3) assms(6) assms(7) by (rule getOrder_not_ok)
  have "fst (handleTrack limiter fetch now nowIso request)
          = trackError (''Shopify API error: '' @ string_of_nat st)"
    using assms(1-5) g by (rule handleTrack_reaches(1))
  moreover have "snd (snd (handleTrack limiter fetch now nowIso request)) = 1"
    using assms(1-5) g by (rule handleTrack_reaches(2))
  ultimately show ?thesis
    using trackError_status [OF assms(8) assms(9)] by simp
qed

theorem handleTrack_upstream_status_witness:
  "fst (isAllowed Map.empty (clientIP
          \<lparr>cf_connecting_ip = Some ''203.0.113.7'', x_forwarded_for = None,
           body = Inr (None, Some ''sam@example.com'')\<rparr>) 100 (15 * 60 * 1000) 0)
   \<and> \<not> ok 503
   \<and> fst (handleTrack Map.empty (\<lambda>q. FetchResponse 503 (Inl ''Service Unavailable''))
             0 ''2024-01-15T10:30:00.000Z''
          \<lparr>cf_connecting_ip = Some ''203.0.113.7'', x_forwarded_for = None,
           body = Inr (None, Some ''sam@example.com'')\<rparr>)
       = ErrorResponse ''Service unavailable'' ''Shopify API is currently unavailable''
           ''SHOPIFY_SERVICE_UNAVAILABLE'' 503
   \<and> snd (snd (handleTrack Map.empty (\<lambda>q. FetchResponse 503 (Inl ''Service Unavailable''))
             0 ''2024-01-15T10:30:00.000Z''
          \<lparr>cf_connecting_ip = Some ''203.0.113.7'', x_forwarded_for = None,
           body = Inr (None, Some ''sam@example.com'')\<rparr>)) = 1"
  using handleTrack_upstream_status
    [of Map.empty
        "\<lparr>cf_connecting_ip = Some ''203.0.113.7'', x_forwarded_for = None,
           body = Inr (None, Some ''sam@example.com'')\<rparr>"
        0 None "Some ''sam@example.com''"
        "\<lambda>q. FetchResponse 503 (Inl ''Service Unavailable'')" 503 "Inl ''Service Unavailable''"
        "''2024-01-15T10:30:00.000Z''"]
  by (simp add: isAllowed_def clientIP_def truthy_def validateEmail_def emailChar_def
      whiteSpace_def ok_def)

lemma replaceFirst_split:
  "p \<notin> set pre \<Longrightarrow> replaceFirst p r (pre @ p # post) = pre @ r @ post"
  by (induction pre) auto

lemma replaceFirst_absent: "p \<notin> set s \<Longrightarrow> replaceFirst p r s = s"
  by (induction s) auto

lemma handleTrack_success:
  assumes "fst (handleTrack limiter fetch now nowIso request) = SuccessResponse d"
  shows "\<exists>orderNo emailArg ord.
           body request = Inr (orderNo, emailArg)
           \<and> fst (getOrder fetch orderNo emailArg) = Inr (Some ord)
           \<and> orderNumber d = replaceFirst CHR ''#'' [] (name ord)"
  using assms
  by (auto simp add: handleTrack_def Let_def trackError_def
      split: prod.splits if_splits sum.splits option.splits)

text \<open>
  C9 as stated fails: for an order whose display name is ZV#1001 the success result carries
  the order number ZV1001, while stripping a leading marker leaves ZV#1001 unchanged.
\<close>

theorem handleTrack_orderNumber_counterexample:
  "fst (handleTrack Map.empty
          (\<lambda>q. FetchResponse 200 (Inr (Some
             [\<lparr>name = ''ZV#1001'', email = Some ''sam@example.com'', created_at = 0,
               closed_at = None, fulfillments = None\<rparr>])))
          3600000 ''2024-01-15T10:30:00.000Z''
          \<lparr>cf_connecting_ip = Some ''203.0.113.7'', x_forwarded_for = None,
           body = Inr (None, Some ''sam@example.com'')\<rparr>)
     = SuccessResponse
         \<lparr>orderNumber = ''ZV1001'', data_status = ''Order Processing'',
          data_trackingNumber = None, orderDate = 0,
          lastUpdated = ''2024-01-15T10:30:00.000Z'', data_deliveredAt = None\<rparr>
   \<and> stripMarker_spec ''ZV#1001'' = ''ZV#1001''"
  by (simp add: track_eval stripMarker_spec_def)

text \<open>
  C9, amended. In every success result, the order number is the display name of the located
  order with its first hash character removed, wherever that character stands: a leading
  hash is stripped and nothing else, and a display name without a hash is returned
  unchanged.
\<close>

theorem handleTrack_orderNumber:
  assumes "fst (handleTrack limiter fetch now nowIso request) = SuccessResponse d"
  shows "\<exists>orderNo emailArg ord.
           body request = Inr (orderNo, emailArg)
           \<and> fst (getOrder fetch orderNo emailArg) = Inr (Some ord)
           \<and> orderNumber d = replaceFirst CHR ''#'' [] (name ord)
           \<and> (\<forall>pre post. name ord = pre @ CHR ''#'' # post \<and> CHR ''#'' \<notin> set pre \<longrightarrow>
                  orderNumber d = pre @ post)
           \<and> (\<forall>rest. name ord = CHR ''#'' # rest \<longrightarrow> orderNumber d = rest)
           \<and> (CHR ''#'' \<notin> set (name ord) \<longrightarrow> orderNumber d = name ord)"
proof -
  from handleTrack_success [OF assms] obtain orderNo emailArg ord where
    h: "body request = Inr (orderNo, emailArg)"
       "fst (getOrder fetch orderNo emailArg) = Inr (Some ord)"
       "orderNumber d = replaceFirst CHR ''#'' [] (name ord)"
    by blast
  have "orderNumber d = pre @ post"
    if "name ord = pre @ CHR ''#'' # post" "CHR ''#'' \<notin> set pre" for pre post
    using that h(3) replaceFirst_split [of "CHR ''#''" pre "[]" post] by simp
  moreover have "orderNumber d = rest" if "name ord = CHR ''#'' # rest" for rest
    using that h(3) by simp
  moreover have "orderNumber d = name ord" if "CHR ''#'' \<notin> set (name ord)"
    using that h(3) replaceFirst_absent by simp
  ultimately show ?thesis using h by blast
qed

theorem handleTrack_orderNumber_witness:
  "fst (handleTrack Map.empty
          (\<lambda>q. FetchResponse 200 (Inr (Some
             [\<lparr>name = ''#1001'', email = Some ''sam@example.com'', created_at = 0,
               closed_at = None, fulfillments = None\<rparr>])))
          3600000 ''2024-01-15T10:30:00.000Z''
          \<lparr>cf_connecting_ip = Some ''203.0.113.7'', x_forwarded_for = None,
           body = Inr (None, Some ''sam@example.com'')\<rparr>)
     = SuccessResponse
         \<lparr>orderNumber = ''1001'', data_status = ''Order Processing'',
          data_trackingNumber = None, orderDate = 0,
          lastUpdated = ''2024-01-15T10:30:00.000Z'', data_deliveredAt = None\<rparr>"
  using handleTrack_orderNumber
    [of Map.empty
        "\<lambda>q. FetchResponse 200 (Inr (Some
             [\<lparr>name = ''#1001'', email = Some ''sam@example.com'', created_at = 0,
               closed_at = None, fulfillments = None\<rparr>]))"
        3600000 "''2024-01-15T10:30:00.000Z''"
        "\<lparr>cf_connecting_ip = Some ''203.0.113.7'', x_forwarded_for = None,
           body = Inr (None, Some ''sam@example.com'')\<rparr>"
        "\<lparr>orderNumber = ''1001'', data_status = ''Order Processing'',
          data_trackingNumber = None, orderDate = 0,
          lastUpdated = ''2024-01-15T10:30:00.000Z'', data_deliveredAt = None\<rparr>"]
  by (simp add: track_eval)


end
